theory Spec2Isabelle
  imports Complex_Main
begin

section \<open>Constants\<close>

text \<open>
  The program is the reducer of the game in its last version, the one whose state has the
  field \<open>paused\<close> and whose \<open>tick\<close> takes the length of the level table.

  The game's numbers are JavaScript numbers. Positions, velocities and times are modelled
  as reals (sums, differences and comparisons as the source writes them); counters
  (\<open>score\<close>, \<open>lives\<close>) and the generator's seed are integers. The one place where the
  source's arithmetic leaves the range in which integers are exact, the generator's
  multiplication, is modelled with the rounding written out (section RNG). \<open>NaN\<close> and the
  infinities have no counterpart in the reducer's state; the level loader, which can
  produce them, returns its own kind of field (section Level loader).
\<close>

definition CANVAS_WIDTH :: real where "CANVAS_WIDTH = 600"
definition CANVAS_HEIGHT :: real where "CANVAS_HEIGHT = 400"

definition BIRB_WIDTH :: real where "BIRB_WIDTH = 42"
definition BIRB_HEIGHT :: real where "BIRB_HEIGHT = 30"

definition PIPE_WIDTH :: real where "PIPE_WIDTH = 50"
definition TICK_RATE_MS :: real where "TICK_RATE_MS = 20"
definition GRAVITY :: real where "GRAVITY = 0.5"
definition FLAP_STRENGTH :: real where "FLAP_STRENGTH = - 8"
definition BIRD_X :: real where "BIRD_X = 100"
definition PIPE_SPEED :: real where "PIPE_SPEED = 2"

section \<open>State\<close>

text \<open>
  \<open>Pipe\<close> is the source's record \<open>{id, x, gapY, gapHeight, passed, time}\<close>; the fields
  \<open>id\<close>, \<open>x\<close> and \<open>time\<close> carry the prefix \<open>pipe_\<close>. The type of the numeric
  fields is a parameter: the reducer works on \<open>real Pipe\<close>, the level loader returns
  what \<open>parseFloat\<close> and array destructuring give it (section Level loader).
\<close>

record 'n Pipe =
  pipe_id :: nat
  pipe_x :: 'n
  gapY :: 'n
  gapHeight :: 'n
  passed :: bool
  pipe_time :: 'n

record State =
  birdY :: real
  birdVelocity :: real
  gameTime :: real
  pipes :: "real Pipe list"
  score :: int
  gameEnd :: bool
  lives :: int
  rngSeed :: int
  invulnerableUntil :: real
  currentPath :: "real list"
  ghostPath :: "real list"
  paused :: bool

definition initialState :: State where
  "initialState =
     \<lparr> birdY = CANVAS_HEIGHT / 2 - BIRB_HEIGHT / 2,
       birdVelocity = 0,
       gameTime = 0,
       pipes = [],
       score = 0,
       gameEnd = False,
       lives = 3,
       rngSeed = 12345,
       invulnerableUntil = 0,
       currentPath = [],
       ghostPath = [],
       paused = False \<rparr>"

section \<open>RNG\<close>

text \<open>
  \<open>RNG.hash\<close> is \<open>(RNG.a * seed + RNG.c) % RNG.m\<close> on JavaScript numbers, which are
  IEEE 754 doubles: an integer of magnitude below \<open>2^53\<close> is exact, a larger one is
  rounded to 53 significant bits (to nearest, ties to an even significand) after the
  multiplication and again after the addition. \<open>roundDouble\<close> is that rounding on the
  integers; \<open>ulpExp a\<close> is the number of low bits a magnitude \<open>a\<close> loses.
  \<open>%\<close> is exact and takes the sign of the dividend (\<open>jsRem\<close>). A seed is an integer;
  the seeds a game stores lie in \<open>[0, 2^31)\<close>, far from the magnitudes at which a double
  overflows, which are not modelled.
\<close>

definition RNG_m :: int where "RNG_m = 0x80000000"
definition RNG_a :: int where "RNG_a = 1103515245"
definition RNG_c :: int where "RNG_c = 12345"

function ulpExp :: "int \<Rightarrow> nat" where
  "ulpExp a = (if a < 2 ^ 53 then 0 else Suc (ulpExp (a div 2)))"
  by pat_completeness auto
termination
  by (relation "measure nat") auto

declare ulpExp.simps [simp del]

definition roundDouble :: "int \<Rightarrow> int" where
  "roundDouble v =
     (let a = \<bar>v\<bar>;
          e = ulpExp a;
          q = a div 2 ^ e;
          r = a mod 2 ^ e;
          q' = (if 2 * r > 2 ^ e \<or> (2 * r = 2 ^ e \<and> odd q) then q + 1 else q)
      in sgn v * (q' * 2 ^ e))"

definition jsRem :: "int \<Rightarrow> int \<Rightarrow> int" where
  "jsRem v d = sgn v * (\<bar>v\<bar> mod \<bar>d\<bar>)"

definition hash :: "int \<Rightarrow> int" where
  "hash seed = jsRem (roundDouble (roundDouble (RNG_a * seed) + RNG_c)) RNG_m"

definition scale :: "int \<Rightarrow> real" where
  "scale h = (2 * real_of_int h) / (real_of_int RNG_m - 1) - 1"

section \<open>Physics and collision\<close>

definition checkBirdHitsTop :: "real \<Rightarrow> bool" where
  "checkBirdHitsTop y = (y \<le> 0)"

definition checkBirdHitsBottom :: "real \<Rightarrow> bool" where
  "checkBirdHitsBottom y = (y + BIRB_HEIGHT \<ge> CANVAS_HEIGHT)"

definition checkBirdHitsPipe :: "real \<Rightarrow> real Pipe \<Rightarrow> bool" where
  "checkBirdHitsPipe y pipe =
     (let birdLeft = BIRD_X;
          birdRight = BIRD_X + BIRB_WIDTH;
          birdTop = y;
          birdBottom = y + BIRB_HEIGHT;
          pipeLeft = pipe_x pipe;
          pipeRight = pipe_x pipe + PIPE_WIDTH;
          gapTop = (gapY pipe - gapHeight pipe / 2) * CANVAS_HEIGHT;
          gapBottom = (gapY pipe + gapHeight pipe / 2) * CANVAS_HEIGHT
      in if birdRight > pipeLeft \<and> birdLeft < pipeRight
         then birdTop < gapTop \<or> birdBottom > gapBottom
         else False)"

datatype CollisionType = Top | Bottom

definition getPipeCollisionType :: "real \<Rightarrow> real Pipe \<Rightarrow> CollisionType" where
  "getPipeCollisionType y pipe =
     (let birdCenter = y + BIRB_HEIGHT / 2;
          gapCenter = gapY pipe * CANVAS_HEIGHT
      in if birdCenter < gapCenter then Top else Bottom)"

definition generateBounceVelocity :: "int \<Rightarrow> bool \<Rightarrow> real \<times> int" where
  "generateBounceVelocity seed isUpward =
     (let nextSeed = hash seed;
          randomValue = scale nextSeed;
          magnitude = 3 + \<bar>randomValue\<bar> * 3;
          velocity = (if isUpward then - magnitude else magnitude)
      in (velocity, nextSeed))"

definition flap :: "State \<Rightarrow> State" where
  "flap s = s\<lparr>birdVelocity := FLAP_STRENGTH\<rparr>"

section \<open>The tick transition\<close>

text \<open>
  The three array pipelines of \<open>tick\<close>: \<open>movedPipes\<close> (move left, drop what left the
  screen), \<open>pipesWithScore\<close> (mark what was passed) and \<open>newlyPassed\<close> (count it).
  \<open>justPassed\<close> is the test the last two share.
\<close>

definition movedPipes :: "real Pipe list \<Rightarrow> real Pipe list" where
  "movedPipes ps =
     filter (\<lambda>pipe. pipe_x pipe > - PIPE_WIDTH)
       (map (\<lambda>pipe. pipe\<lparr>pipe_x := pipe_x pipe - PIPE_SPEED\<rparr>) ps)"

definition justPassed :: "real Pipe \<Rightarrow> bool" where
  "justPassed pipe = (\<not> passed pipe \<and> pipe_x pipe + PIPE_WIDTH < BIRD_X)"

definition pipesWithScore :: "real Pipe list \<Rightarrow> real Pipe list" where
  "pipesWithScore mp = map (\<lambda>pipe. if justPassed pipe then pipe\<lparr>passed := True\<rparr> else pipe) mp"

definition newlyPassed :: "real Pipe list \<Rightarrow> nat" where
  "newlyPassed mp = length (filter justPassed mp)"

definition tick :: "nat \<Rightarrow> State \<Rightarrow> State" where
  "tick allPipesLength s =
     (if gameEnd s \<or> paused s then s
      else
        let velocity = birdVelocity s + GRAVITY;
            y = birdY s + velocity;
            newTime = gameTime s + TICK_RATE_MS / 1000;
            mp = movedPipes (pipes s);
            newScore = score s + int (newlyPassed mp);
            allPipesPassed = (allPipesLength > 0 \<and> newScore \<ge> int allPipesLength);
            isVulnerable = (newTime \<ge> invulnerableUntil s);
            hitTop = checkBirdHitsTop y;
            hitBottom = checkBirdHitsBottom y;
            hitPipe = find (checkBirdHitsPipe y) (pipes s)
        in
          if isVulnerable \<and> (hitTop \<or> hitBottom \<or> hitPipe \<noteq> None) then
            let shouldBounceUp =
                  (if hitBottom then True
                   else if hitTop then False
                   else (case hitPipe of
                           Some p \<Rightarrow> getPipeCollisionType y p = Bottom
                         | None \<Rightarrow> False));
                (bounceVelocity, newSeed) = generateBounceVelocity (rngSeed s) shouldBounceUp
            in s\<lparr> birdY := y,
                  birdVelocity := bounceVelocity,
                  pipes := pipesWithScore mp,
                  gameTime := newTime,
                  lives := lives s - 1,
                  rngSeed := newSeed,
                  invulnerableUntil := newTime + 2,
                  score := newScore,
                  gameEnd := (lives s - 1 \<le> 0 \<or> allPipesPassed),
                  currentPath := currentPath s @ [y] \<rparr>
          else
            let clampedY = max 0 (min (CANVAS_HEIGHT - BIRB_HEIGHT) y)
            in s\<lparr> birdY := clampedY,
                  birdVelocity := velocity,
                  pipes := pipesWithScore mp,
                  score := newScore,
                  gameTime := newTime,
                  invulnerableUntil := invulnerableUntil s,
                  gameEnd := allPipesPassed,
                  currentPath := currentPath s @ [clampedY] \<rparr>)"

section \<open>Events\<close>

text \<open>
  \<open>state$\<close> merges five streams of state transformers and folds them over
  \<open>initialState\<close> with \<open>scan((s, f) => f(s))\<close>. An event names the stream an element
  comes from; \<open>reduce\<close> is the transformer that stream maps it to.
\<close>

datatype Event = TickEv | FlapEv | RestartEv | PipeSpawnEv "real Pipe" | PauseEv

definition restart :: "State \<Rightarrow> State" where
  "restart s = (if gameEnd s then initialState\<lparr>ghostPath := currentPath s\<rparr> else s)"

definition pause :: "State \<Rightarrow> State" where
  "pause s = s\<lparr>paused := \<not> paused s\<rparr>"

definition pipeSpawn :: "real Pipe \<Rightarrow> State \<Rightarrow> State" where
  "pipeSpawn pipe s = s\<lparr>pipes := pipes s @ [pipe]\<rparr>"

fun reduce :: "nat \<Rightarrow> Event \<Rightarrow> State \<Rightarrow> State" where
  "reduce allPipesLength TickEv s = tick allPipesLength s"
| "reduce allPipesLength FlapEv s = flap s"
| "reduce allPipesLength RestartEv s = restart s"
| "reduce allPipesLength (PipeSpawnEv pipe) s = pipeSpawn pipe s"
| "reduce allPipesLength PauseEv s = pause s"

section \<open>Level loader\<close>

text \<open>
  \<open>parseCSV\<close> uses three built-ins of the language, modelled here on byte strings:
  \<open>trim\<close> (white space is the ASCII white space and line terminators), \<open>split\<close> on a
  one-character separator, and \<open>parseFloat\<close>, which reads the longest prefix that is a
  decimal literal (optional sign, \<open>Infinity\<close> or digits with an optional fraction and
  exponent) and returns \<open>NaN\<close> when there is none. The value of a literal is its exact
  decimal value. Destructuring an array that is too short binds \<open>undefined\<close>, so a field
  of a loaded pipe is a \<open>JSValue\<close>.
\<close>

datatype JSValue = Number real | NaN | PosInfinity | NegInfinity | Undefined

definition isWhiteSpace :: "char \<Rightarrow> bool" where
  "isWhiteSpace c = (c \<in> set [CHR '' '', CHR 0x09, CHR 0x0A, CHR 0x0B, CHR 0x0C, CHR 0x0D])"

definition trimStart :: "string \<Rightarrow> string" where
  "trimStart s = dropWhile isWhiteSpace s"

definition trim :: "string \<Rightarrow> string" where
  "trim s = rev (dropWhile isWhiteSpace (rev (dropWhile isWhiteSpace s)))"

text \<open>The result of \<open>split\<close> is never empty; its first case below is never taken.\<close>

primrec split :: "char \<Rightarrow> string \<Rightarrow> string list" where
  "split sep [] = [[]]"
| "split sep (c # cs) =
     (if c = sep then [] # split sep cs
      else (case split sep cs of
              [] \<Rightarrow> [[c]]
            | w # ws \<Rightarrow> (c # w) # ws))"

definition isDigit :: "char \<Rightarrow> bool" where
  "isDigit c = (c \<in> set ''0123456789'')"

definition digitValue :: "char \<Rightarrow> nat" where
  "digitValue c = of_char c - 48"

definition digitsValue :: "string \<Rightarrow> nat" where
  "digitsValue ds = foldl (\<lambda>acc c. 10 * acc + digitValue c) 0 ds"

definition parseExponent :: "string \<Rightarrow> int" where
  "parseExponent s =
     (case s of
        [] \<Rightarrow> 0
      | e # t \<Rightarrow>
          if e = CHR ''e'' \<or> e = CHR ''E'' then
            (let neg = (case t of [] \<Rightarrow> False | sg # _ \<Rightarrow> sg = CHR ''-'');
                 t' = (case t of
                         [] \<Rightarrow> t
                       | sg # u \<Rightarrow> if sg = CHR ''-'' \<or> sg = CHR ''+'' then u else t);
                 ds = takeWhile isDigit t'
             in if ds = [] then 0
                else if neg then - int (digitsValue ds) else int (digitsValue ds))
          else 0)"

definition parseUnsigned :: "string \<Rightarrow> JSValue" where
  "parseUnsigned s =
     (if take 8 s = ''Infinity'' then PosInfinity
      else
        let ip = takeWhile isDigit s;
            r = dropWhile isDigit s;
            dot = (case r of [] \<Rightarrow> False | c # _ \<Rightarrow> c = CHR ''.'');
            fp = (if dot then takeWhile isDigit (tl r) else []);
            r' = (if dot then dropWhile isDigit (tl r) else r);
            e = parseExponent r';
            m = real (digitsValue ip) + real (digitsValue fp) / 10 ^ length fp
        in if ip = [] \<and> fp = [] then NaN
           else Number (if e \<ge> 0 then m * 10 ^ nat e else m / 10 ^ nat (- e)))"

definition negate :: "JSValue \<Rightarrow> JSValue" where
  "negate v =
     (case v of
        Number x \<Rightarrow> Number (- x)
      | PosInfinity \<Rightarrow> NegInfinity
      | NegInfinity \<Rightarrow> PosInfinity
      | NaN \<Rightarrow> NaN
      | Undefined \<Rightarrow> Undefined)"

definition parseFloat :: "string \<Rightarrow> JSValue" where
  "parseFloat s =
     (case trimStart s of
        [] \<Rightarrow> NaN
      | c # t \<Rightarrow> if c = CHR ''-'' then negate (parseUnsigned t)
                 else if c = CHR ''+'' then parseUnsigned t
                 else parseUnsigned (c # t))"

text \<open>\<open>element xs i\<close> is what destructuring binds to position \<open>i\<close> of the array \<open>xs\<close>.\<close>

definition element :: "JSValue list \<Rightarrow> nat \<Rightarrow> JSValue" where
  "element xs i = (if i < length xs then xs ! i else Undefined)"

definition parseLine :: "nat \<times> string \<Rightarrow> JSValue Pipe" where
  "parseLine = (\<lambda>(index, line).
     let fields = map (\<lambda>v. parseFloat (trim v)) (split CHR '','' line)
     in \<lparr> pipe_id = index,
          pipe_x = Number CANVAS_WIDTH,
          gapY = element fields 0,
          gapHeight = element fields 1,
          passed = False,
          pipe_time = element fields 2 \<rparr>)"

definition parseCSV :: "string \<Rightarrow> JSValue Pipe list" where
  "parseCSV csvContent =
     (let lines = split (CHR 0x0A) (trim csvContent)
      in map parseLine (enumerate 0 (drop 1 lines)))"

section \<open>Names for the intermediate values of a tick\<close>

text \<open>
  The constants \<open>y\<close>, \<open>newTime\<close>, \<open>newScore\<close> and \<open>shouldBounceUp\<close> of \<open>tick\<close>, and
  the condition under which it takes its collision branch, as functions of the incoming
  state.
\<close>

definition newY :: "State \<Rightarrow> real" where
  "newY s = birdY s + (birdVelocity s + GRAVITY)"

definition newTime :: "State \<Rightarrow> real" where
  "newTime s = gameTime s + TICK_RATE_MS / 1000"

definition collides :: "State \<Rightarrow> bool" where
  "collides s =
     (newTime s \<ge> invulnerableUntil s \<and>
      (checkBirdHitsTop (newY s) \<or> checkBirdHitsBottom (newY s) \<or>
       find (checkBirdHitsPipe (newY s)) (pipes s) \<noteq> None))"

definition newScore :: "State \<Rightarrow> int" where
  "newScore s = score s + int (newlyPassed (movedPipes (pipes s)))"

definition shouldBounceUp :: "State \<Rightarrow> bool" where
  "shouldBounceUp s =
     (if checkBirdHitsBottom (newY s) then True
      else if checkBirdHitsTop (newY s) then False
      else (case find (checkBirdHitsPipe (newY s)) (pipes s) of
              Some p \<Rightarrow> getPipeCollisionType (newY s) p = Bottom
            | None \<Rightarrow> False))"

section \<open>Sample states\<close>

text \<open>A run that ended after three recorded ticks, with a ghost of its own.\<close>

definition endedRun :: State where
  "endedRun = \<lparr> birdY = 120, birdVelocity = 4, gameTime = 7, pipes = [], score = 2,
     gameEnd = True, lives = 0, rngSeed = 1406932606, invulnerableUntil = 9,
     currentPath = [185.5, 186.5, 188], ghostPath = [1], paused = False \<rparr>"

text \<open>The bird one tick away from leaving the screen at the bottom, vulnerable and not.\<close>

definition fallingOut :: State where
  "fallingOut = initialState\<lparr>birdY := 369, birdVelocity := 5\<rparr>"

definition fallingOutShielded :: State where
  "fallingOutShielded = initialState\<lparr>birdY := 369, birdVelocity := 5, invulnerableUntil := 2\<rparr>"

text \<open>
  A pipe whose right edge is one unit right of the bird's left edge, and one whose left
  edge touches the bird's right edge; the bird of \<open>initialState\<close> is below both gaps.
\<close>

definition leavingPipe :: "real Pipe" where
  "leavingPipe = \<lparr> pipe_id = 0, pipe_x = 51, gapY = 0.2, gapHeight = 0.2, passed = True, pipe_time = 2 \<rparr>"

definition arrivingPipe :: "real Pipe" where
  "arrivingPipe = \<lparr> pipe_id = 1, pipe_x = 142, gapY = 0.2, gapHeight = 0.2, passed = False, pipe_time = 4 \<rparr>"






definition invertedPipe :: "real Pipe" where
  "invertedPipe = \<lparr> pipe_id = 0, pipe_x = 120, gapY = 0.5, gapHeight = - 0.5, passed = False, pipe_time = 2 \<rparr>"


section \<open>The two branches of a tick\<close>

lemmas Constants_defs =
  CANVAS_WIDTH_def CANVAS_HEIGHT_def BIRB_WIDTH_def BIRB_HEIGHT_def PIPE_WIDTH_def
  TICK_RATE_MS_def GRAVITY_def FLAP_STRENGTH_def BIRD_X_def PIPE_SPEED_def


lemma tick_collision:
  assumes "\<not> gameEnd s" "\<not> paused s" "collides s"
  shows "tick n s =
    s\<lparr> birdY := newY s,
       birdVelocity := fst (generateBounceVelocity (rngSeed s) (shouldBounceUp s)),
       pipes := pipesWithScore (movedPipes (pipes s)),
       gameTime := newTime s,
       lives := lives s - 1,
       rngSeed := snd (generateBounceVelocity (rngSeed s) (shouldBounceUp s)),
       invulnerableUntil := newTime s + 2,
       score := newScore s,
       gameEnd := (lives s - 1 \<le> 0 \<or> (n > 0 \<and> newScore s \<ge> int n)),
       currentPath := currentPath s @ [newY s] \<rparr>"
  using assms
  by (simp add: tick_def Let_def collides_def newY_def newTime_def newScore_def
      shouldBounceUp_def split_beta split: option.splits)

lemma tick_normal:
  assumes "\<not> gameEnd s" "\<not> paused s" "\<not> collides s"
  shows "tick n s =
    s\<lparr> birdY := max 0 (min (CANVAS_HEIGHT - BIRB_HEIGHT) (newY s)),
       birdVelocity := birdVelocity s + GRAVITY,
       pipes := pipesWithScore (movedPipes (pipes s)),
       score := newScore s,
       gameTime := newTime s,
       gameEnd := (n > 0 \<and> newScore s \<ge> int n),
       currentPath := currentPath s @ [max 0 (min (CANVAS_HEIGHT - BIRB_HEIGHT) (newY s))] \<rparr>"
  using assms
  by (auto simp add: tick_def Let_def collides_def newY_def newTime_def newScore_def)

lemma tick_pipes:
  "\<not> gameEnd s \<Longrightarrow> \<not> paused s \<Longrightarrow> pipes (tick n s) = pipesWithScore (movedPipes (pipes s))"
  by (cases "collides s") (simp_all add: tick_collision tick_normal)


lemma tick_lives:
  "\<not> gameEnd s \<Longrightarrow> \<not> paused s \<Longrightarrow> lives (tick n s) = (if collides s then lives s - 1 else lives s)"
  by (cases "collides s") (simp_all add: tick_collision tick_normal)


lemma find_None_iff_set: "(find P xs \<noteq> None) = (\<exists>x\<in>set xs. P x)"
  by (auto simp add: find_None_iff)




section \<open>Rounding and the bounce velocity\<close>












section \<open>Flap\<close>

text \<open>
  Claim C1, as the specification states it: on an ended state the flap event returns the
  state unchanged. The source's \<open>flap\<close> has no such guard: on the initial state marked
  ended, the flap event changes the state, and the velocity it stores is the flap impulse.
\<close>

theorem flap_ignores_gameEnd_counterexample:
  "reduce 1 FlapEv (initialState\<lparr>gameEnd := True\<rparr>) \<noteq> initialState\<lparr>gameEnd := True\<rparr> \<and>
   birdVelocity (reduce 1 FlapEv (initialState\<lparr>gameEnd := True\<rparr>)) = - 8"
  by (simp add: flap_def initialState_def FLAP_STRENGTH_def)

text \<open>
  Claim C1, amended: for every state, ended or not and paused or not, the flap event
  returns the state with \<open>birdVelocity\<close> replaced by the constant \<open>-8\<close> and every other
  field unchanged.
\<close>

theorem flap_sets_velocity:
  "birdVelocity (reduce n FlapEv s) = - 8 \<and>
   reduce n FlapEv s = s\<lparr>birdVelocity := - 8\<rparr>"
  by (simp add: flap_def FLAP_STRENGTH_def)

section \<open>Tick while paused or ended\<close>

text \<open>
  Claim C4: for every state that is paused or ended, the tick transition returns the
  state itself, equal in every field (time, position, pipes, score, lives and recorded
  path included).
\<close>

theorem tick_paused_or_ended_noop:
  "gameEnd s \<or> paused s \<Longrightarrow> reduce n TickEv s = s"
  by (simp add: tick_def)

theorem tick_paused_or_ended_noop_witness:
  "(gameEnd (initialState\<lparr>paused := True\<rparr>) \<or> paused (initialState\<lparr>paused := True\<rparr>)) \<and>
   reduce 3 TickEv (initialState\<lparr>paused := True\<rparr>) = initialState\<lparr>paused := True\<rparr> \<and>
   (gameEnd (initialState\<lparr>gameEnd := True\<rparr>) \<or> paused (initialState\<lparr>gameEnd := True\<rparr>)) \<and>
   reduce 3 TickEv (initialState\<lparr>gameEnd := True\<rparr>) = initialState\<lparr>gameEnd := True\<rparr>"
proof -
  have p: "gameEnd (initialState\<lparr>paused := True\<rparr>) \<or> paused (initialState\<lparr>paused := True\<rparr>)"
    by simp
  have e: "gameEnd (initialState\<lparr>gameEnd := True\<rparr>) \<or> paused (initialState\<lparr>gameEnd := True\<rparr>)"
    by simp
  show ?thesis
    using p e tick_paused_or_ended_noop [OF p, of 3] tick_paused_or_ended_noop [OF e, of 3]
    by blast
qed

section \<open>Restart\<close>

text \<open>
  Claim C5: on an ended state with recorded path \<open>P\<close>, the restart event yields a state
  whose \<open>ghostPath\<close> is \<open>P\<close> and whose other fields are those of the initial state
  (resetting \<open>ghostPath\<close> to its default gives the initial state); on a state that has
  not ended, restart returns the state unchanged.
\<close>

theorem restart_carries_ghost:
  "(gameEnd s \<longrightarrow>
      ghostPath (reduce n RestartEv s) = currentPath s \<and>
      (reduce n RestartEv s)\<lparr>ghostPath := ghostPath initialState\<rparr> = initialState) \<and>
   (\<not> gameEnd s \<longrightarrow> reduce n RestartEv s = s)"
  by (simp add: restart_def initialState_def)

theorem restart_carries_ghost_witness:
  "gameEnd endedRun \<and>
   reduce 1 RestartEv endedRun = initialState\<lparr>ghostPath := [185.5, 186.5, 188]\<rparr> \<and>
   \<not> gameEnd initialState \<and> reduce 1 RestartEv initialState = initialState"
proof -
  have g: "gameEnd endedRun" by (simp add: endedRun_def)
  have c: "currentPath endedRun = [185.5, 186.5, 188]" by (simp add: endedRun_def)
  have i: "\<not> gameEnd initialState" by (simp add: initialState_def)
  from restart_carries_ghost [of endedRun 1] g c
  have "ghostPath (reduce 1 RestartEv endedRun) = [185.5, 186.5, 188]"
    and "(reduce 1 RestartEv endedRun)\<lparr>ghostPath := ghostPath initialState\<rparr> = initialState"
    by simp_all
  then have "reduce 1 RestartEv endedRun = initialState\<lparr>ghostPath := [185.5, 186.5, 188]\<rparr>"
    by (metis State.surjective State.update_convs(11))
  with g i restart_carries_ghost [of initialState 1] show ?thesis by simp
qed

section \<open>Clamping\<close>

text \<open>
  Claim C8: on a tick of a running state, the stored \<open>birdY\<close> is the integrated position
  clamped to \<open>[0, CANVAS_HEIGHT - BIRB_HEIGHT]\<close> when no collision is registered, and the
  unclamped integrated position \<open>birdY + (birdVelocity + GRAVITY)\<close> when one is; in both
  cases the stored value is the one appended to \<open>currentPath\<close>.
\<close>

theorem tick_clamps_unless_collision:
  assumes "\<not> gameEnd s" and "\<not> paused s"
  shows "(\<not> collides s \<longrightarrow>
            birdY (tick n s) = max 0 (min (CANVAS_HEIGHT - BIRB_HEIGHT) (newY s)) \<and>
            0 \<le> birdY (tick n s) \<and> birdY (tick n s) \<le> CANVAS_HEIGHT - BIRB_HEIGHT) \<and>
         (collides s \<longrightarrow> birdY (tick n s) = newY s) \<and>
         currentPath (tick n s) = currentPath s @ [birdY (tick n s)]"
proof (cases "collides s")
  case True
  with assms show ?thesis by (simp add: tick_collision)
next
  case False
  with assms show ?thesis by (simp add: tick_normal Constants_defs)
qed

lemma fallingOut_facts:
  "\<not> gameEnd fallingOut" "\<not> paused fallingOut" "collides fallingOut" "newY fallingOut = 374.5"
  "currentPath fallingOut = []"
  by (simp_all add: fallingOut_def initialState_def collides_def newY_def newTime_def
      checkBirdHitsBottom_def Constants_defs)

lemma fallingOutShielded_facts:
  "\<not> gameEnd fallingOutShielded" "\<not> paused fallingOutShielded" "\<not> collides fallingOutShielded"
  "newY fallingOutShielded = 374.5" "currentPath fallingOutShielded = []"
  by (simp_all add: fallingOutShielded_def initialState_def collides_def newY_def newTime_def
      Constants_defs)

theorem tick_clamps_unless_collision_witness:
  "\<not> gameEnd fallingOut \<and> \<not> paused fallingOut \<and> collides fallingOut \<and>
   birdY (tick 1 fallingOut) = 374.5 \<and> currentPath (tick 1 fallingOut) = [374.5] \<and>
   \<not> gameEnd fallingOutShielded \<and> \<not> paused fallingOutShielded \<and> \<not> collides fallingOutShielded \<and>
   birdY (tick 1 fallingOutShielded) = 370 \<and> currentPath (tick 1 fallingOutShielded) = [370]"
  using tick_clamps_unless_collision [OF fallingOut_facts(1,2), of 1]
    tick_clamps_unless_collision [OF fallingOutShielded_facts(1,2), of 1]
    fallingOut_facts fallingOutShielded_facts
  by (simp add: Constants_defs)

section \<open>Collision geometry and pipe movement\<close>

text \<open>
  Claim C10: on a vulnerable tick of a running state, a collision is registered (a life is
  lost) exactly when the newly integrated position hits the top or the bottom of the
  screen or some pipe of the incoming state, at the position that pipe has there; the
  state the tick produces stores the pipes moved left, filtered and marked. The collision
  test is thus one pipe movement behind the stored pipes.
\<close>

theorem collision_tests_unmoved_pipes:
  assumes "\<not> gameEnd s" and "\<not> paused s" and "newTime s \<ge> invulnerableUntil s"
  shows "(lives (tick n s) = lives s - 1) =
           (checkBirdHitsTop (newY s) \<or> checkBirdHitsBottom (newY s) \<or>
            (\<exists>pipe\<in>set (pipes s). checkBirdHitsPipe (newY s) pipe)) \<and>
         pipes (tick n s) = pipesWithScore (movedPipes (pipes s))"
proof -
  have "collides s =
          (checkBirdHitsTop (newY s) \<or> checkBirdHitsBottom (newY s) \<or>
           (\<exists>pipe\<in>set (pipes s). checkBirdHitsPipe (newY s) pipe))"
    unfolding collides_def find_None_iff_set using assms(3) by simp
  moreover have "(lives (tick n s) = lives s - 1) = collides s"
    using assms(1,2) by (simp add: tick_lives)
  ultimately show ?thesis
    using assms(1,2) by (simp add: tick_pipes)
qed

lemma leaving_facts:
  "\<not> gameEnd (initialState\<lparr>pipes := [leavingPipe]\<rparr>)"
  "\<not> paused (initialState\<lparr>pipes := [leavingPipe]\<rparr>)"
  "newTime (initialState\<lparr>pipes := [leavingPipe]\<rparr>)
     \<ge> invulnerableUntil (initialState\<lparr>pipes := [leavingPipe]\<rparr>)"
  "newY (initialState\<lparr>pipes := [leavingPipe]\<rparr>) = 185.5"
  "lives (initialState\<lparr>pipes := [leavingPipe]\<rparr>) = 3"
  by (simp_all add: initialState_def newTime_def newY_def Constants_defs)

lemma arriving_facts:
  "\<not> gameEnd (initialState\<lparr>pipes := [arrivingPipe]\<rparr>)"
  "\<not> paused (initialState\<lparr>pipes := [arrivingPipe]\<rparr>)"
  "newTime (initialState\<lparr>pipes := [arrivingPipe]\<rparr>)
     \<ge> invulnerableUntil (initialState\<lparr>pipes := [arrivingPipe]\<rparr>)"
  "newY (initialState\<lparr>pipes := [arrivingPipe]\<rparr>) = 185.5"
  "lives (initialState\<lparr>pipes := [arrivingPipe]\<rparr>) = 3"
  by (simp_all add: initialState_def newTime_def newY_def Constants_defs)

text \<open>
  The leaving pipe overlaps the bird where the incoming state has it and no longer where
  the tick stores it: a life is lost. The arriving pipe overlaps only where the tick
  stores it: no life is lost.
\<close>

theorem collision_tests_unmoved_pipes_witness:
  "lives (tick 2 (initialState\<lparr>pipes := [leavingPipe]\<rparr>)) = 2 \<and>
   pipes (tick 2 (initialState\<lparr>pipes := [leavingPipe]\<rparr>)) = [leavingPipe\<lparr>pipe_x := 49\<rparr>] \<and>
   \<not> checkBirdHitsPipe 185.5 (leavingPipe\<lparr>pipe_x := 49\<rparr>) \<and>
   lives (tick 2 (initialState\<lparr>pipes := [arrivingPipe]\<rparr>)) \<noteq> 2 \<and>
   pipes (tick 2 (initialState\<lparr>pipes := [arrivingPipe]\<rparr>)) = [arrivingPipe\<lparr>pipe_x := 140\<rparr>] \<and>
   checkBirdHitsPipe 185.5 (arrivingPipe\<lparr>pipe_x := 140\<rparr>)"
  using collision_tests_unmoved_pipes [OF leaving_facts(1,2,3), of 2]
    collision_tests_unmoved_pipes [OF arriving_facts(1,2,3), of 2]
    leaving_facts(4,5) arriving_facts(4,5)
  by (simp add: checkBirdHitsTop_def checkBirdHitsBottom_def checkBirdHitsPipe_def
      leavingPipe_def arrivingPipe_def pipesWithScore_def movedPipes_def justPassed_def
      Constants_defs initialState_def)

section \<open>Score\<close>



section \<open>End by completion\<close>




section \<open>A hit below the gap\<close>




text \<open>
  Both edges are needed: the loader accepts a negative gap height, the gap bottom of such
  a pipe lies above its gap top, and a bird between the gap bottom and the gap center is
  classified \<open>Top\<close>.
\<close>

lemma inverted_gap_classified_top:
  "BIRD_X + BIRB_WIDTH > pipe_x invertedPipe \<and> BIRD_X < pipe_x invertedPipe + PIPE_WIDTH \<and>
   120 \<ge> (gapY invertedPipe + gapHeight invertedPipe / 2) * CANVAS_HEIGHT \<and>
   \<not> 120 \<ge> (gapY invertedPipe - gapHeight invertedPipe / 2) * CANVAS_HEIGHT \<and>
   checkBirdHitsPipe 120 invertedPipe \<and>
   getPipeCollisionType 120 invertedPipe = Top"
  by (simp add: invertedPipe_def checkBirdHitsPipe_def getPipeCollisionType_def Constants_defs)

section \<open>Bounce velocity\<close>




section \<open>Loading a level\<close>




text \<open>The level text of the specification's parsing example.\<close>

lemma parseCSV_example:
  "parseCSV (''gapY,gapHeight,time'' @ [CHR 0x0A] @ ''0.5,0.2,2'' @ [CHR 0x0A] @ ''0.5,0.3,4'') =
   [\<lparr> pipe_id = 0, pipe_x = Number 600, gapY = Number 0.5, gapHeight = Number 0.2,
      passed = False, pipe_time = Number 2 \<rparr>,
    \<lparr> pipe_id = 1, pipe_x = Number 600, gapY = Number 0.5, gapHeight = Number 0.3,
      passed = False, pipe_time = Number 4 \<rparr>]"
  by (simp add: parseCSV_def parseLine_def trim_def trimStart_def isWhiteSpace_def isDigit_def
     parseFloat_def parseUnsigned_def parseExponent_def digitsValue_def digitValue_def element_def
     enumerate_eq_zip CANVAS_WIDTH_def Let_def)

end
